theory Spec2Isabelle
  imports Complex_Main "HOL-Library.Word"
begin

section \<open>BlockVote server: vote submission, results and election deletion\<close>

text \<open>
  A shallow embedding of the request handlers of \<^verbatim>\<open>src/server.js\<close>:
  \<^verbatim>\<open>POST /api/vote\<close> (submitVote), \<^verbatim>\<open>GET /api/elections/:id/results\<close>
  (getResults) and \<^verbatim>\<open>DELETE /api/elections/:id\<close> (deleteElection).
  The MySQL tables are lists of rows, every \<^verbatim>\<open>db.query\<close> is a function on the
  database that may report an error, and a handler that writes returns its HTTP response
  together with the database it leaves behind.
\<close>

subsection \<open>JavaScript values of a parsed JSON body\<close>

text \<open>
  \<^verbatim>\<open>bodyParser.json\<close> yields null, booleans, numbers, strings, arrays and objects;
  a field that the body does not have reads as \<^verbatim>\<open>undefined\<close>. Numbers are
  modelled by integers.
\<close>

datatype jsval =
    JUndefined
  | JNull
  | JBool bool
  | JNum int
  | JStr string
  | JArr "jsval list"
  | JObj "(string \<times> jsval) list"

text \<open>Truthiness, as the operator \<^verbatim>\<open>!\<close> and the operator \<^verbatim>\<open>||\<close> read it.\<close>

fun js_truthy :: "jsval \<Rightarrow> bool" where
  "js_truthy JUndefined = False"
| "js_truthy JNull = False"
| "js_truthy (JBool b) = b"
| "js_truthy (JNum n) = (n \<noteq> 0)"
| "js_truthy (JStr s) = (s \<noteq> [])"
| "js_truthy (JArr xs) = True"
| "js_truthy (JObj kvs) = True"

subsection \<open>Transaction identifiers (server.js, lines 411 to 416)\<close>

type_synonym byte = "8 word"

text \<open>
  \<^verbatim>\<open>crypto.randomBytes(n)\<close> reads \<open>n\<close> bytes of the random source; the source is
  any sequence of bytes.
\<close>

definition randomBytes :: "(nat \<Rightarrow> byte) \<Rightarrow> nat \<Rightarrow> byte list" where
  "randomBytes src n = map src [0..<n]"

definition hex_digit :: "nat \<Rightarrow> char" where
  "hex_digit d = ''0123456789abcdef'' ! (d mod 16)"

text \<open>\<^verbatim>\<open>Buffer.toString('hex')\<close>: two lower-case hexadecimal digits per byte.\<close>

definition hex_byte :: "byte \<Rightarrow> string" where
  "hex_byte b = [hex_digit (unat b div 16), hex_digit (unat b mod 16)]"

definition toString_hex :: "byte list \<Rightarrow> string" where
  "toString_hex bs = concat (map hex_byte bs)"

text \<open>
  \<^verbatim>\<open>let transactionHex = crypto.randomBytes(31).toString('hex');
  let transactionHash = '0x' + transactionHex;
  if (transactionHash.length > 64) transactionHash = transactionHash.slice(0, 64);\<close>
\<close>

definition transactionHex :: "(nat \<Rightarrow> byte) \<Rightarrow> string" where
  "transactionHex src = toString_hex (randomBytes src 31)"

definition transactionHash :: "(nat \<Rightarrow> byte) \<Rightarrow> string" where
  "transactionHash src =
     (let h = ''0x'' @ transactionHex src
      in if length h > 64 then take 64 h else h)"

subsection \<open>Coercions of JavaScript and of MySQL\<close>

definition digit_char :: "nat \<Rightarrow> char" where
  "digit_char d = ''0123456789'' ! (d mod 10)"

function show_nat :: "nat \<Rightarrow> string" where
  "show_nat n = (if n < 10 then [digit_char n] else show_nat (n div 10) @ [digit_char (n mod 10)])"
  by pat_completeness auto
termination
  by (relation "measure id") auto

declare show_nat.simps [simp del]

text \<open>The decimal text of a number, as string concatenation and \<^verbatim>\<open>String\<close> give it.\<close>

definition show_int :: "int \<Rightarrow> string" where
  "show_int i = (if i < 0 then CHR ''-'' # show_nat (nat (- i)) else show_nat (nat i))"

fun join_comma :: "string list \<Rightarrow> string" where
  "join_comma [] = []"
| "join_comma [s] = s"
| "join_comma (s # t # ss) = s @ '','' @ join_comma (t # ss)"

text \<open>
  ToString: an array joins its elements with commas (null and undefined elements give
  the empty text), an object gives \<^verbatim>\<open>[object Object]\<close>.
\<close>

fun js_to_string :: "jsval \<Rightarrow> string" where
  "js_to_string JUndefined = ''undefined''"
| "js_to_string JNull = ''null''"
| "js_to_string (JBool b) = (if b then ''true'' else ''false'')"
| "js_to_string (JNum n) = show_int n"
| "js_to_string (JStr s) = s"
| "js_to_string (JArr xs) =
     join_comma (map (\<lambda>x. if x = JUndefined \<or> x = JNull then [] else js_to_string x) xs)"
| "js_to_string (JObj kvs) = ''[object Object]''"

text \<open>
  The platform: the clock, the random source, the library functions the handlers call
  and the outcome of every storage call whose error the handlers test. The conversions
  of a string to a number (of JavaScript for \<^verbatim>\<open>!=\<close>, of MySQL for a parameter
  compared with an integer column) are parameters; \<open>None\<close> stands for a text that is
  no integer.
\<close>

datatype db_error = DbError (err_code: string) (err_message: string)

datatype audit_outcome = AuditWritten | AuditFailed db_error | AuditThrows

record env =
  new_Date :: int
  Date_now :: int
  receipt_Date :: int
  failure_Date :: int
  random_source :: "nat \<Rightarrow> byte"
  sha256_hex :: "string \<Rightarrow> string"
  JSON_stringify :: "jsval \<Rightarrow> string"
  js_string_to_number :: "string \<Rightarrow> int option"
  sql_string_to_number :: "string \<Rightarrow> int option"
  election_query_error :: "db_error option"
  rejected_audit_write :: audit_outcome
  candidate_query_error :: "db_error option"
  transaction_insert_error :: "db_error option"
  failure_audit_write :: audit_outcome
  vote_insert_error :: "db_error option"
  results_query_error :: "db_error option"
  delete_query_error :: "db_error option"

text \<open>ToNumber, where the result is an integer; \<open>None\<close> is NaN or a fraction.\<close>

fun js_to_number :: "env \<Rightarrow> jsval \<Rightarrow> int option" where
  "js_to_number env JUndefined = None"
| "js_to_number env JNull = Some 0"
| "js_to_number env (JBool b) = Some (if b then 1 else 0)"
| "js_to_number env (JNum n) = Some n"
| "js_to_number env (JStr s) = js_string_to_number env s"
| "js_to_number env (JArr xs) = js_string_to_number env (js_to_string (JArr xs))"
| "js_to_number env (JObj kvs) = js_string_to_number env (js_to_string (JObj kvs))"

text \<open>
  The loose inequality \<^verbatim>\<open>n != v\<close> of a number \<open>n\<close> (a value read from an integer
  column) and a value of the request: null and undefined equal no number, every other
  value is compared after ToNumber.
\<close>

fun js_loose_neq :: "env \<Rightarrow> int \<Rightarrow> jsval \<Rightarrow> bool" where
  "js_loose_neq env n JUndefined = True"
| "js_loose_neq env n JNull = True"
| "js_loose_neq env n v = (js_to_number env v \<noteq> Some n)"

text \<open>
  The integer that MySQL compares with, or stores in, an integer column for a bound
  parameter; \<open>None\<close> when the parameter is NULL or no integer (it then equals no
  identifier, and strict mode refuses to store it).
\<close>

fun sql_int :: "env \<Rightarrow> jsval \<Rightarrow> int option" where
  "sql_int env (JNum n) = Some n"
| "sql_int env (JStr s) = sql_string_to_number env s"
| "sql_int env (JBool b) = Some (if b then 1 else 0)"
| "sql_int env v = None"

definition sql_eq_int :: "env \<Rightarrow> int \<Rightarrow> jsval \<Rightarrow> bool" where
  "sql_eq_int env col p = (sql_int env p = Some col)"

subsection \<open>The database\<close>

text \<open>
  The tables and the columns that server.js reads and writes (the schema file is not
  among the sources). The column \<open>id\<close> of every table is its AUTO_INCREMENT key.
  Instants are milliseconds since the epoch.
\<close>

record election =
  e_id :: int
  e_status :: string
  e_start_date :: int
  e_end_date :: int

record candidate =
  c_id :: int
  c_election_id :: int
  c_name :: string
  c_party :: string
  c_photo_url :: string
  c_is_active :: bool

record blockchain_transaction =
  t_id :: int
  t_transaction_hash :: string
  t_election_id :: int
  t_voter_address :: jsval
  t_candidate_id :: int
  t_vote_data :: string
  t_signature :: jsval
  t_status :: string

record vote =
  v_id :: int
  v_transaction_id :: int
  v_election_id :: int
  v_candidate_id :: int
  v_voter_id :: string
  v_verification_status :: string

datatype reason = not_started | ended | inactive

datatype audit_details =
    VoteRejectedDetails reason string int int int jsval jsval
  | TransactionFailedDetails string string jsval jsval jsval string nat string int

record audit_log =
  a_user_type :: string
  a_action :: string
  a_resource_type :: string
  a_details :: audit_details

record database =
  elections :: "election list"
  candidates :: "candidate list"
  blockchain_transactions :: "blockchain_transaction list"
  votes :: "vote list"
  audit_logs :: "audit_log list"

text \<open>The next AUTO_INCREMENT value of a table whose keys are \<open>ids\<close>.\<close>

definition insertId :: "int list \<Rightarrow> int" where
  "insertId ids = fold max ids 0 + 1"

subsection \<open>The storage calls of the vote handler\<close>

text \<open>\<^verbatim>\<open>SELECT status, start_date, end_date FROM elections WHERE id = ?\<close>\<close>

definition select_election :: "env \<Rightarrow> database \<Rightarrow> jsval \<Rightarrow> db_error + election list" where
  "select_election env db p =
     (case election_query_error env of
        Some err \<Rightarrow> Inl err
      | None \<Rightarrow> Inr (filter (\<lambda>e. sql_eq_int env (e_id e) p) (elections db)))"

text \<open>\<^verbatim>\<open>SELECT id, election_id, is_active FROM candidates WHERE id = ?\<close>\<close>

definition select_candidate :: "env \<Rightarrow> database \<Rightarrow> jsval \<Rightarrow> db_error + candidate list" where
  "select_candidate env db p =
     (case candidate_query_error env of
        Some err \<Rightarrow> Inl err
      | None \<Rightarrow> Inr (filter (\<lambda>c. sql_eq_int env (c_id c) p) (candidates db)))"

text \<open>
  \<^verbatim>\<open>INSERT INTO audit_logs (user_id, user_type, action, resource_type, details)\<close>, in
  its \<^verbatim>\<open>try\<close> block: the row is stored, or the callback receives an error, or
  building the entry or issuing the query throws.
\<close>

definition insert_audit_log :: "audit_outcome \<Rightarrow> database \<Rightarrow> audit_log \<Rightarrow> database" where
  "insert_audit_log outcome db entry =
     (case outcome of
        AuditWritten \<Rightarrow> db\<lparr>audit_logs := audit_logs db @ [entry]\<rparr>
      | AuditFailed logErr \<Rightarrow> db
      | AuditThrows \<Rightarrow> db)"

text \<open>
  \<^verbatim>\<open>INSERT INTO blockchain_transactions (transaction_hash, election_id, voter_address,
  candidate_id, vote_data, signature, status) VALUES (?, ?, ?, ?, ?, ?, 'confirmed')\<close>;
  the result is the new key (\<^verbatim>\<open>txResults.insertId\<close>) and the new database.
\<close>

definition insert_transaction ::
  "env \<Rightarrow> database \<Rightarrow> string \<Rightarrow> jsval \<Rightarrow> jsval \<Rightarrow> jsval \<Rightarrow> string \<Rightarrow> jsval
    \<Rightarrow> db_error + (int \<times> database)" where
  "insert_transaction env db hash eid addr cid data sig =
     (case transaction_insert_error env of
        Some err \<Rightarrow> Inl err
      | None \<Rightarrow>
         (case (sql_int env eid, sql_int env cid) of
            (Some e, Some c) \<Rightarrow>
              (let new_id = insertId (map t_id (blockchain_transactions db))
               in Inr (new_id,
                    db\<lparr>blockchain_transactions := blockchain_transactions db @
                       [\<lparr>t_id = new_id, t_transaction_hash = hash, t_election_id = e,
                         t_voter_address = addr, t_candidate_id = c, t_vote_data = data,
                         t_signature = sig, t_status = ''confirmed''\<rparr>]\<rparr>))
          | _ \<Rightarrow> Inl (DbError ''ER_TRUNCATED_WRONG_VALUE_FOR_FIELD'' ''Incorrect integer value'')))"

text \<open>
  \<^verbatim>\<open>INSERT INTO votes (transaction_id, election_id, candidate_id, voter_id,
  verification_status) VALUES (?, ?, ?, ?, 'verified')\<close>
\<close>

definition insert_vote ::
  "env \<Rightarrow> database \<Rightarrow> int \<Rightarrow> jsval \<Rightarrow> jsval \<Rightarrow> string \<Rightarrow> db_error + (int \<times> database)" where
  "insert_vote env db txid eid cid voter =
     (case vote_insert_error env of
        Some err \<Rightarrow> Inl err
      | None \<Rightarrow>
         (case (sql_int env eid, sql_int env cid) of
            (Some e, Some c) \<Rightarrow>
              (let new_id = insertId (map v_id (votes db))
               in Inr (new_id,
                    db\<lparr>votes := votes db @
                       [\<lparr>v_id = new_id, v_transaction_id = txid, v_election_id = e,
                         v_candidate_id = c, v_voter_id = voter,
                         v_verification_status = ''verified''\<rparr>]\<rparr>))
          | _ \<Rightarrow> Inl (DbError ''ER_TRUNCATED_WRONG_VALUE_FOR_FIELD'' ''Incorrect integer value'')))"

subsection \<open>POST /api/vote (server.js, lines 313 to 490)\<close>

record vote_request =
  election_id :: jsval
  candidate_id :: jsval
  voter_address :: jsval
  vote_data :: jsval
  signature :: jsval

record receipt =
  rc_transaction_id :: int
  rc_transactionHash :: string
  rc_timestamp :: int
  rc_election_id :: jsval
  rc_verification_code :: string

text \<open>
  The responses of the handler. \<open>ElectionNotAcceptingVotes\<close> carries reason, status,
  start_date, end_date and now; \<open>TransactionCreationFailed\<close> its detail, if any;
  \<open>VoteSubmitted\<close> the field transaction_hash and the receipt. \<open>UncaughtTypeError\<close>
  is no response: an exception leaves the query callback.
\<close>

datatype response =
    MissingRequiredVotingData
  | DatabaseError
  | ElectionNotFound
  | ElectionNotAcceptingVotes reason string int int int
  | InvalidCandidate
  | CandidateNotInElection
  | CandidateNotActive
  | TransactionCreationFailed "string option"
  | VoteRecordingFailed
  | VoteSubmitted string receipt
  | UncaughtTypeError

fun http_status :: "response \<Rightarrow> nat option" where
  "http_status MissingRequiredVotingData = Some 400"
| "http_status DatabaseError = Some 500"
| "http_status ElectionNotFound = Some 404"
| "http_status (ElectionNotAcceptingVotes r st s e n) = Some 400"
| "http_status InvalidCandidate = Some 400"
| "http_status CandidateNotInElection = Some 400"
| "http_status CandidateNotActive = Some 400"
| "http_status (TransactionCreationFailed d) = Some 500"
| "http_status VoteRecordingFailed = Some 500"
| "http_status (VoteSubmitted h r) = Some 200"
| "http_status UncaughtTypeError = None"

text \<open>
  Lines 336 to 345:
  \<^verbatim>\<open>if (now < startDate) reason = 'not_started';
  else if (now > endDate) reason = 'ended';
  else if (election.status !== 'active') reason = 'inactive';\<close>
\<close>

definition eligibility_reason :: "int \<Rightarrow> election \<Rightarrow> reason option" where
  "eligibility_reason now election =
     (if now < e_start_date election then Some not_started
      else if now > e_end_date election then Some ended
      else if e_status election \<noteq> ''active'' then Some inactive
      else None)"

text \<open>\<^verbatim>\<open>v || null\<close>\<close>

definition js_or_null :: "jsval \<Rightarrow> jsval" where
  "js_or_null v = (if js_truthy v then v else JNull)"

text \<open>
  Lines 347 to 388: the rejected attempt is logged, and the structured rejection is sent
  from the callback of the audit write (with or without \<^verbatim>\<open>logErr\<close>) or from the
  \<^verbatim>\<open>catch\<close> block.
\<close>

definition reject_vote ::
  "env \<Rightarrow> database \<Rightarrow> vote_request \<Rightarrow> election \<Rightarrow> reason \<Rightarrow> response \<times> database" where
  "reject_vote env db req election reason =
     (let details = VoteRejectedDetails reason (e_status election) (e_start_date election)
                      (e_end_date election) (new_Date env)
                      (js_or_null (candidate_id req)) (js_or_null (voter_address req));
          entry = \<lparr>a_user_type = ''voter'', a_action = ''VOTE_REJECTED'',
                    a_resource_type = ''election'', a_details = details\<rparr>;
          rejection = ElectionNotAcceptingVotes reason (e_status election)
                        (e_start_date election) (e_end_date election) (new_Date env)
      in case rejected_audit_write env of
           AuditWritten \<Rightarrow> (rejection, insert_audit_log AuditWritten db entry)
         | AuditFailed logErr \<Rightarrow> (rejection, insert_audit_log (AuditFailed logErr) db entry)
         | AuditThrows \<Rightarrow> (rejection, db))"

text \<open>
  \<^verbatim>\<open>typeof vote_data === 'object' ? JSON.stringify(vote_data).slice(0, 1000)
  : String(vote_data)\<close>
\<close>

definition vote_data_sample :: "env \<Rightarrow> jsval \<Rightarrow> string" where
  "vote_data_sample env v =
     (case v of
        JNull \<Rightarrow> take 1000 (JSON_stringify env v)
      | JArr xs \<Rightarrow> take 1000 (JSON_stringify env v)
      | JObj kvs \<Rightarrow> take 1000 (JSON_stringify env v)
      | _ \<Rightarrow> js_to_string v)"

text \<open>
  Lines 423 to 455: the ledger write failed with \<open>err\<close>; the failure is logged and a
  server error is sent.
\<close>

definition transaction_failed ::
  "env \<Rightarrow> database \<Rightarrow> vote_request \<Rightarrow> string \<Rightarrow> db_error \<Rightarrow> response \<times> database" where
  "transaction_failed env db req hash err =
     (let details = TransactionFailedDetails (err_message err) (err_code err)
                      (election_id req) (candidate_id req) (voter_address req)
                      hash (length hash) (vote_data_sample env (vote_data req))
                      (failure_Date env);
          entry = \<lparr>a_user_type = ''system'', a_action = ''TRANSACTION_FAILED'',
                    a_resource_type = ''blockchain_transaction'', a_details = details\<rparr>
      in case failure_audit_write env of
           AuditThrows \<Rightarrow> (TransactionCreationFailed None, db)
         | outcome \<Rightarrow>
            (if err_code err = ''ER_DATA_TOO_LONG''
             then (TransactionCreationFailed (Some ''Data too long for a column (likely transaction_hash). Server has truncated generated hashes to fit DB limits.''),
                   insert_audit_log outcome db entry)
             else (TransactionCreationFailed (Some (err_message err)),
                   insert_audit_log outcome db entry)))"

text \<open>
  \<^verbatim>\<open>voter_address + Date.now()\<close>, the argument of \<^verbatim>\<open>update\<close>: a string,
  an array or an object is concatenated with the decimal text of the instant; for every
  other value the sum is a number, which \<^verbatim>\<open>update\<close> refuses with a TypeError
  (\<open>None\<close>).
\<close>

definition hash_data :: "jsval \<Rightarrow> int \<Rightarrow> string option" where
  "hash_data addr t =
     (case addr of
        JStr s \<Rightarrow> Some (s @ show_int t)
      | JArr xs \<Rightarrow> Some (js_to_string addr @ show_int t)
      | JObj kvs \<Rightarrow> Some (js_to_string addr @ show_int t)
      | _ \<Rightarrow> None)"

text \<open>
  \<^verbatim>\<open>crypto.createHash('sha256').update(voter_address + Date.now()).digest('hex')
  .substring(0, 12)\<close>
\<close>

definition voterHash :: "env \<Rightarrow> jsval \<Rightarrow> string option" where
  "voterHash env addr = map_option (\<lambda>s. take 12 (sha256_hex env s)) (hash_data addr (Date_now env))"

text \<open>Lines 457 to 486: the vote record and the receipt.\<close>

definition record_vote ::
  "env \<Rightarrow> database \<Rightarrow> vote_request \<Rightarrow> string \<Rightarrow> int \<Rightarrow> response \<times> database" where
  "record_vote env db req hash txid =
     (case voterHash env (voter_address req) of
        None \<Rightarrow> (UncaughtTypeError, db)
      | Some vh \<Rightarrow>
         (case insert_vote env db txid (election_id req) (candidate_id req) (''ANON_'' @ vh) of
            Inl err \<Rightarrow> (VoteRecordingFailed, db)
          | Inr (vid, db') \<Rightarrow>
             (VoteSubmitted hash
                \<lparr>rc_transaction_id = txid, rc_transactionHash = hash,
                  rc_timestamp = receipt_Date env, rc_election_id = election_id req,
                  rc_verification_code = vh\<rparr>, db')))"

text \<open>Lines 410 to 487: the ledger write.\<close>

definition create_transaction :: "env \<Rightarrow> database \<Rightarrow> vote_request \<Rightarrow> response \<times> database" where
  "create_transaction env db req =
     (let hash = transactionHash (random_source env)
      in case insert_transaction env db hash (election_id req) (voter_address req)
                (candidate_id req) (JSON_stringify env (vote_data req)) (signature req) of
           Inl err \<Rightarrow> transaction_failed env db req hash err
         | Inr (txid, db') \<Rightarrow> record_vote env db' req hash txid)"

text \<open>Lines 390 to 408: the candidate exists, belongs to the election and is active.\<close>

definition check_candidate :: "env \<Rightarrow> database \<Rightarrow> vote_request \<Rightarrow> response \<times> database" where
  "check_candidate env db req =
     (case select_candidate env db (candidate_id req) of
        Inl candErr \<Rightarrow> (DatabaseError, db)
      | Inr [] \<Rightarrow> (InvalidCandidate, db)
      | Inr (candidate # others) \<Rightarrow>
         (if js_loose_neq env (c_election_id candidate) (election_id req)
          then (CandidateNotInElection, db)
          else if \<not> c_is_active candidate then (CandidateNotActive, db)
          else create_transaction env db req))"

definition submitVote :: "env \<Rightarrow> database \<Rightarrow> vote_request \<Rightarrow> response \<times> database" where
  "submitVote env db req =
     (if \<not> js_truthy (election_id req) \<or> \<not> js_truthy (candidate_id req)
         \<or> \<not> js_truthy (voter_address req) \<or> \<not> js_truthy (vote_data req)
         \<or> \<not> js_truthy (signature req)
      then (MissingRequiredVotingData, db)
      else case select_election env db (election_id req) of
             Inl err \<Rightarrow> (DatabaseError, db)
           | Inr [] \<Rightarrow> (ElectionNotFound, db)
           | Inr (election # others) \<Rightarrow>
              (case eligibility_reason (new_Date env) election of
                 Some reason \<Rightarrow> reject_vote env db req election reason
               | None \<Rightarrow> check_candidate env db req))"

text \<open>
  The submissions that reach the candidate check: the five fields are truthy, the
  election lookup returns a row and the eligibility check finds no reason.
\<close>

definition passes_eligibility :: "env \<Rightarrow> database \<Rightarrow> vote_request \<Rightarrow> bool" where
  "passes_eligibility env db req =
     (js_truthy (election_id req) \<and> js_truthy (candidate_id req)
      \<and> js_truthy (voter_address req) \<and> js_truthy (vote_data req)
      \<and> js_truthy (signature req)
      \<and> (case select_election env db (election_id req) of
            Inr (election # others) \<Rightarrow> eligibility_reason (new_Date env) election = None
          | _ \<Rightarrow> False))"

subsection \<open>GET /api/elections/:id/results (server.js, lines 497 to 530)\<close>

record result_row =
  r_id :: int
  r_name :: string
  r_party :: string
  r_photo_url :: string
  vote_count :: nat
  percentage :: "rat option"

definition verified :: "vote \<Rightarrow> bool" where
  "verified v = (v_verification_status v = ''verified'')"

text \<open>
  The derived table \<open>total\<close>:
  \<^verbatim>\<open>SELECT COUNT(*) as total_votes FROM votes v2 JOIN candidates c2
  ON v2.candidate_id = c2.id WHERE c2.election_id = ? AND v2.verification_status = 'verified'\<close>
\<close>

definition total_votes_subquery :: "env \<Rightarrow> database \<Rightarrow> jsval \<Rightarrow> nat" where
  "total_votes_subquery env db p =
     length [(v2, c2). v2 \<leftarrow> votes db, c2 \<leftarrow> candidates db,
               v_candidate_id v2 = c_id c2 \<and> sql_eq_int env (c_election_id c2) p \<and> verified v2]"

text \<open>
  \<^verbatim>\<open>COUNT(v.id)\<close> over \<^verbatim>\<open>LEFT JOIN votes v ON c.id = v.candidate_id AND
  v.verification_status = 'verified'\<close>, for the group of the candidate \<open>c\<close>.
\<close>

definition count_votes :: "database \<Rightarrow> candidate \<Rightarrow> nat" where
  "count_votes db c = length [v \<leftarrow> votes db. c_id c = v_candidate_id v \<and> verified v]"

text \<open>\<^verbatim>\<open>ROUND(x, 2)\<close> of an exact decimal: to the nearest hundredth, halves away from zero.\<close>

definition sql_round2 :: "rat \<Rightarrow> rat" where
  "sql_round2 x =
     (if x < 0 then - (of_int \<lfloor>- x * 100 + 1 / 2\<rfloor> / 100) else of_int \<lfloor>x * 100 + 1 / 2\<rfloor> / 100)"

text \<open>\<^verbatim>\<open>ROUND(COUNT(v.id) * 100.0 / NULLIF(total.total_votes, 0), 2)\<close>; NULL is \<open>None\<close>.\<close>

definition sql_percentage :: "nat \<Rightarrow> nat \<Rightarrow> rat option" where
  "sql_percentage n total_votes =
     (if total_votes = 0 then None
      else Some (sql_round2 (of_nat n * 100 / of_nat total_votes)))"

text \<open>
  The query: one row for each candidate with \<^verbatim>\<open>c.election_id = ? AND c.is_active =
  TRUE\<close> (the groups of \<^verbatim>\<open>GROUP BY c.id, ...\<close>, \<open>id\<close> being the key of the table),
  \<^verbatim>\<open>ORDER BY vote_count DESC\<close>.
\<close>

definition results_query :: "env \<Rightarrow> database \<Rightarrow> jsval \<Rightarrow> db_error + result_row list" where
  "results_query env db p =
     (case results_query_error env of
        Some err \<Rightarrow> Inl err
      | None \<Rightarrow>
         Inr (sort_key (\<lambda>r. - int (vote_count r))
                (map (\<lambda>c. \<lparr>r_id = c_id c, r_name = c_name c, r_party = c_party c,
                            r_photo_url = c_photo_url c, vote_count = count_votes db c,
                            percentage = sql_percentage (count_votes db c)
                                           (total_votes_subquery env db p)\<rparr>)
                   (filter (\<lambda>c. sql_eq_int env (c_election_id c) p \<and> c_is_active c)
                      (candidates db)))))"

datatype results_response =
    ResultsDatabaseError
  | Results (res_total_votes: nat) (res_candidates: "result_row list")

text \<open>
  \<^verbatim>\<open>const totalVotes = results.reduce((sum, candidate) => sum + candidate.vote_count, 0);\<close>
  The path parameter \<^verbatim>\<open>id\<close> is a string.
\<close>

definition getResults :: "env \<Rightarrow> database \<Rightarrow> string \<Rightarrow> results_response" where
  "getResults env db ident =
     (case results_query env db (JStr ident) of
        Inl err \<Rightarrow> ResultsDatabaseError
      | Inr results \<Rightarrow>
         (let totalVotes = foldl (\<lambda>sum candidate. sum + vote_count candidate) 0 results
          in Results totalVotes results))"

text \<open>
  What a run of the vote handler may do to the tables: elections and candidates stay,
  the ledger gains nothing or one confirmed transaction, and the vote records gain
  nothing or, with a new transaction, one verified record that references it.
\<close>

definition appended :: "database \<Rightarrow> database \<Rightarrow> bool" where
  "appended db db' =
     (let txs = drop (length (blockchain_transactions db)) (blockchain_transactions db');
          vs = drop (length (votes db)) (votes db')
      in blockchain_transactions db' = blockchain_transactions db @ txs
         \<and> votes db' = votes db @ vs
         \<and> elections db' = elections db \<and> candidates db' = candidates db
         \<and> (case txs of
               [] \<Rightarrow> vs = []
             | [t] \<Rightarrow> t_status t = ''confirmed''
                      \<and> (case vs of
                            [] \<Rightarrow> True
                          | [v] \<Rightarrow> v_transaction_id v = t_id t \<and> verified v
                          | _ \<Rightarrow> False)
             | _ \<Rightarrow> False))"

text \<open>
  The spec's words, for comparison: "the count of verified vote records for the election"
  in the Vote Record Store, read off the election column of the vote records.
\<close>

definition spec_verified_vote_records :: "env \<Rightarrow> database \<Rightarrow> jsval \<Rightarrow> vote list" where
  "spec_verified_vote_records env db p =
     [v \<leftarrow> votes db. sql_eq_int env (v_election_id v) p \<and> verified v]"

text \<open>
  The candidates the query keeps (\<^verbatim>\<open>WHERE c.election_id = ? AND c.is_active = TRUE\<close>)
  and the verified vote records cast for one of them.
\<close>

definition active_candidate_of :: "env \<Rightarrow> jsval \<Rightarrow> candidate \<Rightarrow> bool" where
  "active_candidate_of env p = (\<lambda>c. sql_eq_int env (c_election_id c) p \<and> c_is_active c)"

definition verified_votes_for_active_candidates :: "env \<Rightarrow> database \<Rightarrow> jsval \<Rightarrow> vote list" where
  "verified_votes_for_active_candidates env db p =
     [v \<leftarrow> votes db.
        verified v \<and> list_ex (\<lambda>c. active_candidate_of env p c \<and> c_id c = v_candidate_id v) (candidates db)]"

subsection \<open>DELETE /api/elections/:id (server.js, lines 194 to 211)\<close>

text \<open>
  Modelled from the spec: the foreign key of the ledger table on the elections table,
  declared in the schema file (blockvote_schema.sql), which is not among the sources.
  The spec says of an election that it is "never deleted while referenced transactions
  exist": the storage refuses to delete an election row that a transaction references.
\<close>

definition referenced_by_transaction :: "database \<Rightarrow> election \<Rightarrow> bool" where
  "referenced_by_transaction db e =
     list_ex (\<lambda>t. t_election_id t = e_id e) (blockchain_transactions db)"

text \<open>
  \<^verbatim>\<open>DELETE FROM elections WHERE id = ?\<close>: the number of deleted rows
  (\<^verbatim>\<open>results.affectedRows\<close>) and the new database, or the error of a statement that
  fails as a whole.
\<close>

definition delete_election_query :: "env \<Rightarrow> database \<Rightarrow> jsval \<Rightarrow> db_error + (nat \<times> database)" where
  "delete_election_query env db p =
     (case delete_query_error env of
        Some err \<Rightarrow> Inl err
      | None \<Rightarrow>
         (let matched = filter (\<lambda>e. sql_eq_int env (e_id e) p) (elections db)
          in if list_ex (referenced_by_transaction db) matched
             then Inl (DbError ''ER_ROW_IS_REFERENCED_2'' ''Cannot delete or update a parent row: a foreign key constraint fails'')
             else Inr (length matched,
                       db\<lparr>elections := filter (\<lambda>e. \<not> sql_eq_int env (e_id e) p) (elections db)\<rparr>)))"

datatype delete_response = DeleteDatabaseError | DeleteElectionNotFound | ElectionDeleted

definition deleteElection :: "env \<Rightarrow> database \<Rightarrow> string \<Rightarrow> delete_response \<times> database" where
  "deleteElection env db ident =
     (case delete_election_query env db (JStr ident) of
        Inl err \<Rightarrow> (DeleteDatabaseError, db)
      | Inr (affectedRows, db') \<Rightarrow>
         (if affectedRows = 0 then (DeleteElectionNotFound, db') else (ElectionDeleted, db')))"

subsection \<open>A small installation, for concrete runs\<close>

text \<open>
  A platform on which every storage call works, the texts \<open>1\<close> and \<open>2\<close> are the
  numbers 1 and 2, and the evaluation instant is 1000.
\<close>

definition small_number :: "string \<Rightarrow> int option" where
  "small_number s = (if s = ''1'' then Some 1 else if s = ''2'' then Some 2 else None)"

definition demo_env :: env where
  "demo_env =
     \<lparr>new_Date = 1000, Date_now = 1001, receipt_Date = 1002, failure_Date = 1003,
      random_source = (\<lambda>i. word_of_nat i),
      sha256_hex = (\<lambda>s. ''9f86d081884c7d659a2feaa0c55ad015a3bf4f1b2b0b822cd15d6c15b0f00a08''),
      JSON_stringify = (\<lambda>v. ''{}''),
      js_string_to_number = small_number,
      sql_string_to_number = small_number,
      election_query_error = None,
      rejected_audit_write = AuditWritten,
      candidate_query_error = None,
      transaction_insert_error = None,
      failure_audit_write = AuditWritten,
      vote_insert_error = None,
      results_query_error = None,
      delete_query_error = None\<rparr>"

text \<open>
  Election 1 is active and open at the instant 1000, election 2 is a draft that opens
  later. Candidates 10 and 11 stand in election 1 (11 was deactivated after one verified
  vote for each of them), candidate 20 stands in election 2.
\<close>

definition demo_db :: database where
  "demo_db =
     \<lparr>elections =
        [\<lparr>e_id = 1, e_status = ''active'', e_start_date = 0, e_end_date = 2000\<rparr>,
         \<lparr>e_id = 2, e_status = ''draft'', e_start_date = 5000, e_end_date = 6000\<rparr>],
      candidates =
        [\<lparr>c_id = 10, c_election_id = 1, c_name = ''A'', c_party = ''P'', c_photo_url = [],
           c_is_active = True\<rparr>,
         \<lparr>c_id = 11, c_election_id = 1, c_name = ''B'', c_party = ''Q'', c_photo_url = [],
           c_is_active = False\<rparr>,
         \<lparr>c_id = 20, c_election_id = 2, c_name = ''C'', c_party = ''P'', c_photo_url = [],
           c_is_active = True\<rparr>],
      blockchain_transactions =
        [\<lparr>t_id = 1, t_transaction_hash = ''0xaa'', t_election_id = 1,
           t_voter_address = JStr ''0xv1'', t_candidate_id = 10, t_vote_data = ''x'',
           t_signature = JStr ''s1'', t_status = ''confirmed''\<rparr>,
         \<lparr>t_id = 2, t_transaction_hash = ''0xbb'', t_election_id = 1,
           t_voter_address = JStr ''0xv2'', t_candidate_id = 11, t_vote_data = ''y'',
           t_signature = JStr ''s2'', t_status = ''confirmed''\<rparr>],
      votes =
        [\<lparr>v_id = 1, v_transaction_id = 1, v_election_id = 1, v_candidate_id = 10,
           v_voter_id = ''ANON_1'', v_verification_status = ''verified''\<rparr>,
         \<lparr>v_id = 2, v_transaction_id = 2, v_election_id = 1, v_candidate_id = 11,
           v_voter_id = ''ANON_2'', v_verification_status = ''verified''\<rparr>],
      audit_logs = []\<rparr>"

text \<open>A vote for candidate \<open>c\<close> in election \<open>e\<close>, every field present.\<close>

definition demo_request :: "int \<Rightarrow> int \<Rightarrow> vote_request" where
  "demo_request e c =
     \<lparr>election_id = JNum e, candidate_id = JNum c, voter_address = JStr ''0xv3'',
      vote_data = JObj [(''choice'', JNum c)], signature = JStr ''sig''\<rparr>"

section \<open>Properties\<close>

subsection \<open>The transaction identifier\<close>

lemma length_toString_hex: "length (toString_hex bs) = 2 * length bs"
  by (induction bs) (simp_all add: toString_hex_def hex_byte_def)

lemma length_transactionHex: "length (transactionHex src) = 62"
  by (simp add: transactionHex_def length_toString_hex randomBytes_def)

lemma length_transactionHash: "length (transactionHash src) = 64"
  by (simp add: transactionHash_def Let_def length_transactionHex)

text \<open>
  C3. For every random source, the transaction identifier is the marker \<open>0x\<close> followed
  by the hexadecimal text of the 31 random bytes, it is exactly 64 characters long, so
  it never exceeds the capacity of the ledger column and the defensive truncation never
  cuts anything.
\<close>

theorem transactionHash_length_64:
  "length (transactionHash src) = 64
   \<and> transactionHash src = ''0x'' @ toString_hex (randomBytes src 31)
   \<and> length (randomBytes src 31) = 31"
  by (simp add: transactionHash_def Let_def length_transactionHex)
     (simp add: transactionHex_def randomBytes_def)

subsection \<open>The required fields\<close>

lemmas demo_defs = demo_env_def demo_db_def demo_request_def small_number_def

text \<open>
  C7. Whenever one of the five required fields (election identifier, candidate
  identifier, voter address, vote payload, signature) is missing from the body,
  submitVote answers 400 "Missing required voting data" and returns the database as it
  received it: no ledger write, no vote record, no audit entry.
\<close>

theorem missing_field_is_invalid_input:
  assumes "election_id req = JUndefined \<or> candidate_id req = JUndefined
           \<or> voter_address req = JUndefined \<or> vote_data req = JUndefined
           \<or> signature req = JUndefined"
  shows "submitVote env db req = (MissingRequiredVotingData, db)
         \<and> http_status (fst (submitVote env db req)) = Some 400
         \<and> blockchain_transactions (snd (submitVote env db req)) = blockchain_transactions db
         \<and> votes (snd (submitVote env db req)) = votes db
         \<and> audit_logs (snd (submitVote env db req)) = audit_logs db"
  using assms by (auto simp add: submitVote_def)

theorem missing_field_is_invalid_input_witness:
  "signature ((demo_request 1 10)\<lparr>signature := JUndefined\<rparr>) = JUndefined
   \<and> submitVote demo_env demo_db ((demo_request 1 10)\<lparr>signature := JUndefined\<rparr>)
       = (MissingRequiredVotingData, demo_db)"
  using missing_field_is_invalid_input
          [of "(demo_request 1 10)\<lparr>signature := JUndefined\<rparr>" demo_env demo_db]
  by simp

text \<open>
  C10. The check tests falsiness, not absence: a submission in which a required field is
  present with the value 0, the empty string, false or null is answered
  "Missing required voting data" with the database untouched, exactly as the same
  submission with that field missing is.
\<close>

theorem falsy_field_is_invalid_input:
  assumes "f = JNum 0 \<or> f = JStr [] \<or> f = JBool False \<or> f = JNull"
      and "election_id req = f \<or> candidate_id req = f \<or> voter_address req = f
           \<or> vote_data req = f \<or> signature req = f"
  shows "submitVote env db req = (MissingRequiredVotingData, db)
         \<and> (election_id req = f \<longrightarrow>
              submitVote env db req = submitVote env db (req\<lparr>election_id := JUndefined\<rparr>))
         \<and> (candidate_id req = f \<longrightarrow>
              submitVote env db req = submitVote env db (req\<lparr>candidate_id := JUndefined\<rparr>))
         \<and> (voter_address req = f \<longrightarrow>
              submitVote env db req = submitVote env db (req\<lparr>voter_address := JUndefined\<rparr>))
         \<and> (vote_data req = f \<longrightarrow>
              submitVote env db req = submitVote env db (req\<lparr>vote_data := JUndefined\<rparr>))
         \<and> (signature req = f \<longrightarrow>
              submitVote env db req = submitVote env db (req\<lparr>signature := JUndefined\<rparr>))"
proof -
  have falsy: "\<not> js_truthy f"
    using assms(1) by auto
  have rejected: "submitVote env db req = (MissingRequiredVotingData, db)"
    using assms(2) falsy by (auto simp add: submitVote_def)
  have missing:
    "submitVote env db (req\<lparr>election_id := JUndefined\<rparr>) = (MissingRequiredVotingData, db)"
    "submitVote env db (req\<lparr>candidate_id := JUndefined\<rparr>) = (MissingRequiredVotingData, db)"
    "submitVote env db (req\<lparr>voter_address := JUndefined\<rparr>) = (MissingRequiredVotingData, db)"
    "submitVote env db (req\<lparr>vote_data := JUndefined\<rparr>) = (MissingRequiredVotingData, db)"
    "submitVote env db (req\<lparr>signature := JUndefined\<rparr>) = (MissingRequiredVotingData, db)"
    by (simp_all add: submitVote_def)
  show ?thesis
    unfolding rejected missing by simp
qed

theorem falsy_field_is_invalid_input_witness:
  "vote_data ((demo_request 1 10)\<lparr>vote_data := JNum 0\<rparr>) = JNum 0
   \<and> submitVote demo_env demo_db ((demo_request 1 10)\<lparr>vote_data := JNum 0\<rparr>)
       = (MissingRequiredVotingData, demo_db)
   \<and> submitVote demo_env demo_db ((demo_request 1 10)\<lparr>vote_data := JNum 0\<rparr>)
       = submitVote demo_env demo_db ((demo_request 1 10)\<lparr>vote_data := JUndefined\<rparr>)"
proof -
  have "vote_data ((demo_request 1 10)\<lparr>vote_data := JNum 0\<rparr>) = JNum 0"
    by simp
  with falsy_field_is_invalid_input
         [of "JNum 0" "(demo_request 1 10)\<lparr>vote_data := JNum 0\<rparr>" demo_env demo_db]
  show ?thesis
    by auto
qed

subsection \<open>Eligibility of the election\<close>

lemma select_election_demo_2:
  "select_election demo_env demo_db (JNum 2) =
     Inr [\<lparr>e_id = 2, e_status = ''draft'', e_start_date = 5000, e_end_date = 6000\<rparr>]"
  by (simp add: select_election_def sql_eq_int_def demo_defs)

text \<open>
  C2. For a submission with its five fields present whose election lookup returns the
  election, the reason is fixed in this order: not_started when now < start; else ended
  when now > end; else inactive when the status is not active; else there is no reason
  and the handler goes on to the candidate. The first case does not look at the status:
  an election that has not started is reported as not_started whatever its status, and
  the rejection sent carries that reason.
\<close>

theorem eligibility_reason_order:
  assumes "js_truthy (election_id req)" "js_truthy (candidate_id req)"
          "js_truthy (voter_address req)" "js_truthy (vote_data req)"
          "js_truthy (signature req)"
      and "select_election env db (election_id req) = Inr (election # others)"
  shows "(new_Date env < e_start_date election \<longrightarrow>
            eligibility_reason (new_Date env) election = Some not_started
            \<and> fst (submitVote env db req) =
                ElectionNotAcceptingVotes not_started (e_status election)
                  (e_start_date election) (e_end_date election) (new_Date env))
       \<and> (\<not> new_Date env < e_start_date election \<and> new_Date env > e_end_date election \<longrightarrow>
            eligibility_reason (new_Date env) election = Some ended
            \<and> fst (submitVote env db req) =
                ElectionNotAcceptingVotes ended (e_status election)
                  (e_start_date election) (e_end_date election) (new_Date env))
       \<and> (\<not> new_Date env < e_start_date election \<and> \<not> new_Date env > e_end_date election
            \<and> e_status election \<noteq> ''active'' \<longrightarrow>
            eligibility_reason (new_Date env) election = Some inactive
            \<and> fst (submitVote env db req) =
                ElectionNotAcceptingVotes inactive (e_status election)
                  (e_start_date election) (e_end_date election) (new_Date env))
       \<and> (\<not> new_Date env < e_start_date election \<and> \<not> new_Date env > e_end_date election
            \<and> e_status election = ''active'' \<longrightarrow>
            eligibility_reason (new_Date env) election = None
            \<and> submitVote env db req = check_candidate env db req)"
  using assms
  by (simp add: submitVote_def eligibility_reason_def reject_vote_def Let_def
           split: audit_outcome.split)

theorem eligibility_reason_order_witness:
  "new_Date demo_env < 5000 \<and> ''draft'' \<noteq> ''active''
   \<and> fst (submitVote demo_env demo_db (demo_request 2 20)) =
       ElectionNotAcceptingVotes not_started ''draft'' 5000 6000 1000"
  using eligibility_reason_order
          [of "demo_request 2 20" demo_env demo_db
              "\<lparr>e_id = 2, e_status = ''draft'', e_start_date = 5000, e_end_date = 6000\<rparr>" "[]"]
        select_election_demo_2
  by (simp add: demo_defs)

lemma sql_int_rejected_audit_write:
  "sql_int (env\<lparr>rejected_audit_write := outcome\<rparr>) p = sql_int env p"
  by (cases p) simp_all

lemma select_election_rejected_audit_write:
  "select_election (env\<lparr>rejected_audit_write := outcome\<rparr>) db p = select_election env db p"
  by (simp add: select_election_def sql_eq_int_def sql_int_rejected_audit_write
           split: option.split)

text \<open>
  C8. When the eligibility check rejects a submission with reason \<open>r\<close>, the caller
  receives the rejection with that reason, the status, start and end of the election and
  the evaluation instant, as a 400, whatever the outcome of the audit write of the
  VOTE_REJECTED event: written, failed with an error, or thrown. It is the response of
  the run in which the audit write succeeds, and neither ledger nor vote records change.
\<close>

theorem rejection_survives_audit_failure:
  assumes "js_truthy (election_id req)" "js_truthy (candidate_id req)"
          "js_truthy (voter_address req)" "js_truthy (vote_data req)"
          "js_truthy (signature req)"
      and "select_election env db (election_id req) = Inr (election # others)"
      and "eligibility_reason (new_Date env) election = Some r"
  shows "fst (submitVote (env\<lparr>rejected_audit_write := outcome\<rparr>) db req) =
           ElectionNotAcceptingVotes r (e_status election) (e_start_date election)
             (e_end_date election) (new_Date env)
         \<and> http_status (fst (submitVote (env\<lparr>rejected_audit_write := outcome\<rparr>) db req)) = Some 400
         \<and> fst (submitVote (env\<lparr>rejected_audit_write := outcome\<rparr>) db req) =
             fst (submitVote (env\<lparr>rejected_audit_write := AuditWritten\<rparr>) db req)
         \<and> blockchain_transactions (snd (submitVote (env\<lparr>rejected_audit_write := outcome\<rparr>) db req))
             = blockchain_transactions db
         \<and> votes (snd (submitVote (env\<lparr>rejected_audit_write := outcome\<rparr>) db req)) = votes db"
  using assms
  by (simp add: submitVote_def select_election_rejected_audit_write reject_vote_def Let_def
                insert_audit_log_def
           split: audit_outcome.split)

theorem rejection_survives_audit_failure_witness:
  "eligibility_reason (new_Date demo_env)
     \<lparr>e_id = 2, e_status = ''draft'', e_start_date = 5000, e_end_date = 6000\<rparr> = Some not_started
   \<and> fst (submitVote (demo_env\<lparr>rejected_audit_write := AuditThrows\<rparr>) demo_db (demo_request 2 20)) =
       ElectionNotAcceptingVotes not_started ''draft'' 5000 6000 1000
   \<and> fst (submitVote (demo_env\<lparr>rejected_audit_write := AuditFailed (DbError ''ER_LOCK_DEADLOCK'' ''Deadlock found'')\<rparr>)
            demo_db (demo_request 2 20)) =
       ElectionNotAcceptingVotes not_started ''draft'' 5000 6000 1000"
  using rejection_survives_audit_failure
          [of "demo_request 2 20" demo_env demo_db
              "\<lparr>e_id = 2, e_status = ''draft'', e_start_date = 5000, e_end_date = 6000\<rparr>" "[]"
              not_started AuditThrows]
        rejection_survives_audit_failure
          [of "demo_request 2 20" demo_env demo_db
              "\<lparr>e_id = 2, e_status = ''draft'', e_start_date = 5000, e_end_date = 6000\<rparr>" "[]"
              not_started "AuditFailed (DbError ''ER_LOCK_DEADLOCK'' ''Deadlock found'')"]
        select_election_demo_2
  by (simp add: demo_defs eligibility_reason_def)

subsection \<open>The candidate\<close>

lemma select_election_demo_1:
  "select_election demo_env demo_db (JNum 1) =
     Inr [\<lparr>e_id = 1, e_status = ''active'', e_start_date = 0, e_end_date = 2000\<rparr>]"
  by (simp add: select_election_def sql_eq_int_def demo_defs)

lemma select_candidate_demo_10:
  "select_candidate demo_env demo_db (JNum 10) =
     Inr [\<lparr>c_id = 10, c_election_id = 1, c_name = ''A'', c_party = ''P'', c_photo_url = [],
           c_is_active = True\<rparr>]"
  by (simp add: select_candidate_def sql_eq_int_def demo_defs)

lemma select_candidate_demo_20:
  "select_candidate demo_env demo_db (JNum 20) =
     Inr [\<lparr>c_id = 20, c_election_id = 2, c_name = ''C'', c_party = ''P'', c_photo_url = [],
           c_is_active = True\<rparr>]"
  by (simp add: select_candidate_def sql_eq_int_def demo_defs)

lemma passes_eligibility_demo_1: "passes_eligibility demo_env demo_db (demo_request 1 c) = (c \<noteq> 0)"
  using select_election_demo_1
  by (simp add: passes_eligibility_def demo_request_def eligibility_reason_def)
     (simp add: demo_env_def)

lemma submitVote_passes_eligibility:
  "passes_eligibility env db req \<Longrightarrow> submitVote env db req = check_candidate env db req"
  by (auto simp add: passes_eligibility_def submitVote_def split: sum.splits list.splits)

lemma reject_vote_ledger:
  "blockchain_transactions (snd (reject_vote env db req election r)) = blockchain_transactions db"
  "votes (snd (reject_vote env db req election r)) = votes db"
  "http_status (fst (reject_vote env db req election r)) = Some 400"
  by (simp_all add: reject_vote_def Let_def insert_audit_log_def split: audit_outcome.split)

lemma check_candidate_wrong_election:
  assumes "select_candidate env db (candidate_id req) = Inr (candidate # others)"
      and "js_loose_neq env (c_election_id candidate) (election_id req)"
  shows "check_candidate env db req = (CandidateNotInElection, db)"
  using assms by (simp add: check_candidate_def)

lemma submitVote_before_candidate:
  "submitVote env db req = check_candidate env db req
   \<or> (blockchain_transactions (snd (submitVote env db req)) = blockchain_transactions db
      \<and> votes (snd (submitVote env db req)) = votes db
      \<and> http_status (fst (submitVote env db req)) \<noteq> Some 200)"
  by (simp add: submitVote_def reject_vote_ledger split: sum.split list.split option.split)

text \<open>
  C6, as stated, fails: a submission whose candidate exists in another election is not
  always answered with the wrong-election error. Candidate 10 stands in election 1; a
  vote for it in election 2, which has not started, is answered by the eligibility
  check, which runs first.
\<close>

theorem wrong_election_not_always_reported:
  "select_candidate demo_env demo_db (candidate_id (demo_request 2 10)) =
       Inr [\<lparr>c_id = 10, c_election_id = 1, c_name = ''A'', c_party = ''P'', c_photo_url = [],
             c_is_active = True\<rparr>]
   \<and> js_loose_neq demo_env 1 (election_id (demo_request 2 10))
   \<and> fst (submitVote demo_env demo_db (demo_request 2 10)) =
       ElectionNotAcceptingVotes not_started ''draft'' 5000 6000 1000
   \<and> fst (submitVote demo_env demo_db (demo_request 2 10)) \<noteq> CandidateNotInElection"
  using select_candidate_demo_10 select_election_demo_2
  by (simp add: demo_request_def submitVote_def eligibility_reason_def reject_vote_def
                insert_audit_log_def Let_def)
     (simp add: demo_env_def)

text \<open>
  C6, amended. Whenever the candidate lookup returns a candidate whose election
  identifier differs (\<^verbatim>\<open>!=\<close>) from the submitted one, no transaction and no vote
  record is written and the submission does not succeed. If moreover the submission has
  passed the required-field check and the eligibility check, the answer is the 400
  "Candidate does not belong to election", whether or not the candidate is active. The
  candidate checks come in this order: no candidate gives "Invalid candidate", then the
  election mismatch, then an inactive candidate gives "Candidate is not active".
\<close>

theorem candidate_checks_in_order:
  "(select_candidate env db (candidate_id req) = Inr (candidate # others)
      \<and> js_loose_neq env (c_election_id candidate) (election_id req) \<longrightarrow>
        blockchain_transactions (snd (submitVote env db req)) = blockchain_transactions db
        \<and> votes (snd (submitVote env db req)) = votes db
        \<and> http_status (fst (submitVote env db req)) \<noteq> Some 200)
   \<and> (passes_eligibility env db req
        \<and> select_candidate env db (candidate_id req) = Inr [] \<longrightarrow>
        submitVote env db req = (InvalidCandidate, db))
   \<and> (passes_eligibility env db req
        \<and> select_candidate env db (candidate_id req) = Inr (candidate # others)
        \<and> js_loose_neq env (c_election_id candidate) (election_id req) \<longrightarrow>
        submitVote env db req = (CandidateNotInElection, db)
        \<and> http_status (fst (submitVote env db req)) = Some 400)
   \<and> (passes_eligibility env db req
        \<and> select_candidate env db (candidate_id req) = Inr (candidate # others)
        \<and> \<not> js_loose_neq env (c_election_id candidate) (election_id req)
        \<and> \<not> c_is_active candidate \<longrightarrow>
        submitVote env db req = (CandidateNotActive, db))"
proof (intro conjI impI)
  assume a: "select_candidate env db (candidate_id req) = Inr (candidate # others)
      \<and> js_loose_neq env (c_election_id candidate) (election_id req)"
  then have c: "check_candidate env db req = (CandidateNotInElection, db)"
    by (simp add: check_candidate_wrong_election)
  from submitVote_before_candidate [of env db req] c
  show "blockchain_transactions (snd (submitVote env db req)) = blockchain_transactions db"
    and "votes (snd (submitVote env db req)) = votes db"
    and "http_status (fst (submitVote env db req)) \<noteq> Some 200"
    by auto
next
  assume "passes_eligibility env db req \<and> select_candidate env db (candidate_id req) = Inr []"
  then show "submitVote env db req = (InvalidCandidate, db)"
    by (simp add: submitVote_passes_eligibility check_candidate_def)
next
  assume a: "passes_eligibility env db req
        \<and> select_candidate env db (candidate_id req) = Inr (candidate # others)
        \<and> js_loose_neq env (c_election_id candidate) (election_id req)"
  then show "submitVote env db req = (CandidateNotInElection, db)"
    by (simp add: submitVote_passes_eligibility check_candidate_def)
  then show "http_status (fst (submitVote env db req)) = Some 400"
    by simp
next
  assume "passes_eligibility env db req
        \<and> select_candidate env db (candidate_id req) = Inr (candidate # others)
        \<and> \<not> js_loose_neq env (c_election_id candidate) (election_id req)
        \<and> \<not> c_is_active candidate"
  then show "submitVote env db req = (CandidateNotActive, db)"
    by (simp add: submitVote_passes_eligibility check_candidate_def)
qed

theorem candidate_checks_in_order_witness:
  "passes_eligibility demo_env demo_db (demo_request 1 20)
   \<and> select_candidate demo_env demo_db (candidate_id (demo_request 1 20)) =
       Inr [\<lparr>c_id = 20, c_election_id = 2, c_name = ''C'', c_party = ''P'', c_photo_url = [],
             c_is_active = True\<rparr>]
   \<and> js_loose_neq demo_env 2 (election_id (demo_request 1 20))
   \<and> submitVote demo_env demo_db (demo_request 1 20) = (CandidateNotInElection, demo_db)"
  using candidate_checks_in_order
          [of demo_env demo_db "demo_request 1 20"
              "\<lparr>c_id = 20, c_election_id = 2, c_name = ''C'', c_party = ''P'', c_photo_url = [],
                c_is_active = True\<rparr>" "[]"]
        select_candidate_demo_20 passes_eligibility_demo_1 [of 20]
  by (simp add: demo_request_def)

subsection \<open>The accepted vote\<close>

lemma select_election_ConsD:
  "select_election env db p = Inr (e # es) \<Longrightarrow> sql_int env p = Some (e_id e)"
  by (auto simp add: select_election_def sql_eq_int_def split: option.splits
           dest: filter_eq_ConsD)

lemma select_candidate_ConsD:
  "select_candidate env db p = Inr (c # cs) \<Longrightarrow> sql_int env p = Some (c_id c)"
  by (auto simp add: select_candidate_def sql_eq_int_def split: option.splits
           dest: filter_eq_ConsD)

lemma hash_data_Some:
  assumes "js_truthy addr" and "\<And>n. addr \<noteq> JNum n" and "addr \<noteq> JBool True"
  shows "\<exists>s. hash_data addr t = Some s"
  using assms by (cases addr) (auto simp add: hash_data_def)

text \<open>
  C1, as stated, fails: with an active election inside its window, an active candidate
  of that election and five fields present, the vote is still not recorded when the
  ledger write reports a storage error (the answer is a 500 and only an audit entry is
  written), when the voter address is a number (the digest refuses the sum of the
  address and the instant: the ledger row is written, no vote record, no response), and
  when the vote-record write reports a storage error (a 500, the ledger row stays).
\<close>

theorem valid_vote_can_fail:
  "select_election demo_env demo_db (election_id (demo_request 1 10)) =
     Inr [\<lparr>e_id = 1, e_status = ''active'', e_start_date = 0, e_end_date = 2000\<rparr>]
   \<and> (0::int) \<le> new_Date demo_env \<and> new_Date demo_env \<le> 2000
   \<and> select_candidate demo_env demo_db (candidate_id (demo_request 1 10)) =
       Inr [\<lparr>c_id = 10, c_election_id = 1, c_name = ''A'', c_party = ''P'', c_photo_url = [],
             c_is_active = True\<rparr>]
   \<and> \<not> js_loose_neq demo_env 1 (election_id (demo_request 1 10))
   \<and> submitVote (demo_env\<lparr>transaction_insert_error := Some (DbError ''ER_DUP_ENTRY'' ''Duplicate entry'')\<rparr>)
         demo_db (demo_request 1 10) =
       (TransactionCreationFailed (Some ''Duplicate entry''),
        demo_db\<lparr>audit_logs :=
          [\<lparr>a_user_type = ''system'', a_action = ''TRANSACTION_FAILED'',
            a_resource_type = ''blockchain_transaction'',
            a_details = TransactionFailedDetails ''Duplicate entry'' ''ER_DUP_ENTRY'' (JNum 1)
              (JNum 10) (JStr ''0xv3'') (transactionHash (random_source demo_env)) 64 ''{}'' 1003\<rparr>]\<rparr>)
   \<and> fst (submitVote demo_env demo_db ((demo_request 1 10)\<lparr>voter_address := JNum 5\<rparr>)) =
       UncaughtTypeError
   \<and> votes (snd (submitVote demo_env demo_db ((demo_request 1 10)\<lparr>voter_address := JNum 5\<rparr>))) =
       votes demo_db
   \<and> length (blockchain_transactions
         (snd (submitVote demo_env demo_db ((demo_request 1 10)\<lparr>voter_address := JNum 5\<rparr>)))) =
       length (blockchain_transactions demo_db) + 1
   \<and> fst (submitVote (demo_env\<lparr>vote_insert_error := Some (DbError ''ER_LOCK_DEADLOCK'' ''Deadlock found'')\<rparr>)
              demo_db (demo_request 1 10)) =
       VoteRecordingFailed
   \<and> votes (snd (submitVote (demo_env\<lparr>vote_insert_error := Some (DbError ''ER_LOCK_DEADLOCK'' ''Deadlock found'')\<rparr>)
                     demo_db (demo_request 1 10))) =
       votes demo_db"
  by (simp add: submitVote_def select_election_def select_candidate_def sql_eq_int_def
                check_candidate_def create_transaction_def insert_transaction_def
                transaction_failed_def insert_audit_log_def vote_data_sample_def
                record_vote_def voterHash_def hash_data_def insert_vote_def
                eligibility_reason_def Let_def length_transactionHash demo_defs)

text \<open>
  C1, amended. If the five fields are truthy, the voter address is neither a number nor
  a boolean, the election lookup returns an election with status active and
  start <= now <= end, the candidate lookup returns an active candidate whose election
  identifier equals (\<^verbatim>\<open>==\<close>) the submitted one, and neither the ledger write nor
  the vote-record write reports an error, then submitVote succeeds: it appends one
  transaction with status confirmed and one vote record with status verified that
  references this transaction, and the receipt carries the hash of the stored
  transaction (64 characters), its key and the submitted election identifier.
\<close>

theorem valid_vote_is_recorded:
  assumes "js_truthy (election_id req)" "js_truthy (candidate_id req)"
          "js_truthy (voter_address req)" "js_truthy (vote_data req)"
          "js_truthy (signature req)"
      and address: "\<And>n. voter_address req \<noteq> JNum n" "voter_address req \<noteq> JBool True"
      and election: "select_election env db (election_id req) = Inr (election # others)"
      and "e_status election = ''active''"
      and "e_start_date election \<le> new_Date env" "new_Date env \<le> e_end_date election"
      and candidate: "select_candidate env db (candidate_id req) = Inr (candidate # others')"
      and "\<not> js_loose_neq env (c_election_id candidate) (election_id req)"
      and "c_is_active candidate"
      and "transaction_insert_error env = None" "vote_insert_error env = None"
  shows "\<exists>tx v rc.
           submitVote env db req =
             (VoteSubmitted (t_transaction_hash tx) rc,
              db\<lparr>blockchain_transactions := blockchain_transactions db @ [tx],
                 votes := votes db @ [v]\<rparr>)
           \<and> t_status tx = ''confirmed''
           \<and> t_transaction_hash tx = transactionHash (random_source env)
           \<and> length (t_transaction_hash tx) = 64
           \<and> t_election_id tx = e_id election \<and> t_candidate_id tx = c_id candidate
           \<and> v_verification_status v = ''verified''
           \<and> v_transaction_id v = t_id tx
           \<and> v_election_id v = e_id election \<and> v_candidate_id v = c_id candidate
           \<and> rc_transactionHash rc = t_transaction_hash tx
           \<and> rc_transaction_id rc = t_id tx
           \<and> rc_election_id rc = election_id req"
proof -
  have eid: "sql_int env (election_id req) = Some (e_id election)"
    using election by (rule select_election_ConsD)
  have cid: "sql_int env (candidate_id req) = Some (c_id candidate)"
    using candidate by (rule select_candidate_ConsD)
  obtain s where s: "hash_data (voter_address req) (Date_now env) = Some s"
    using hash_data_Some [OF assms(3) address] by blast
  have eligible: "eligibility_reason (new_Date env) election = None"
    using assms(9-11) by (simp add: eligibility_reason_def)
  define txid where "txid = insertId (map t_id (blockchain_transactions db))"
  define tx where
    "tx = \<lparr>t_id = txid, t_transaction_hash = transactionHash (random_source env),
            t_election_id = e_id election, t_voter_address = voter_address req,
            t_candidate_id = c_id candidate,
            t_vote_data = JSON_stringify env (vote_data req),
            t_signature = signature req, t_status = ''confirmed''\<rparr>"
  define v where
    "v = \<lparr>v_id = insertId (map v_id (votes db)), v_transaction_id = txid,
           v_election_id = e_id election, v_candidate_id = c_id candidate,
           v_voter_id = ''ANON_'' @ take 12 (sha256_hex env s),
           v_verification_status = ''verified''\<rparr>"
  define rc where
    "rc = \<lparr>rc_transaction_id = txid, rc_transactionHash = transactionHash (random_source env),
            rc_timestamp = receipt_Date env, rc_election_id = election_id req,
            rc_verification_code = take 12 (sha256_hex env s)\<rparr>"
  have "submitVote env db req = create_transaction env db req"
    using assms(1-5) election eligible candidate assms(13,14)
    by (simp add: submitVote_def check_candidate_def)
  also have "\<dots> = (VoteSubmitted (t_transaction_hash tx) rc,
                     db\<lparr>blockchain_transactions := blockchain_transactions db @ [tx],
                        votes := votes db @ [v]\<rparr>)"
    using eid cid s assms(15,16)
    by (simp add: create_transaction_def insert_transaction_def record_vote_def
                  insert_vote_def voterHash_def Let_def tx_def v_def rc_def txid_def)
  finally have run: "submitVote env db req =
      (VoteSubmitted (t_transaction_hash tx) rc,
       db\<lparr>blockchain_transactions := blockchain_transactions db @ [tx],
          votes := votes db @ [v]\<rparr>)" .
  have facts: "t_status tx = ''confirmed''"
    "t_transaction_hash tx = transactionHash (random_source env)"
    "length (t_transaction_hash tx) = 64"
    "t_election_id tx = e_id election" "t_candidate_id tx = c_id candidate"
    "v_verification_status v = ''verified''" "v_transaction_id v = t_id tx"
    "v_election_id v = e_id election" "v_candidate_id v = c_id candidate"
    "rc_transactionHash rc = t_transaction_hash tx" "rc_transaction_id rc = t_id tx"
    "rc_election_id rc = election_id req"
    by (simp_all add: tx_def v_def rc_def length_transactionHash)
  from run facts show ?thesis
    by blast
qed

theorem valid_vote_is_recorded_witness:
  "select_election demo_env demo_db (election_id (demo_request 1 10)) =
     Inr [\<lparr>e_id = 1, e_status = ''active'', e_start_date = 0, e_end_date = 2000\<rparr>]
   \<and> (0::int) \<le> new_Date demo_env \<and> new_Date demo_env \<le> 2000
   \<and> select_candidate demo_env demo_db (candidate_id (demo_request 1 10)) =
       Inr [\<lparr>c_id = 10, c_election_id = 1, c_name = ''A'', c_party = ''P'', c_photo_url = [],
             c_is_active = True\<rparr>]
   \<and> \<not> js_loose_neq demo_env 1 (election_id (demo_request 1 10))
   \<and> http_status (fst (submitVote demo_env demo_db (demo_request 1 10))) = Some 200
   \<and> length (blockchain_transactions (snd (submitVote demo_env demo_db (demo_request 1 10)))) = 3
   \<and> length (votes (snd (submitVote demo_env demo_db (demo_request 1 10)))) = 3"
proof -
  have e: "select_election demo_env demo_db (election_id (demo_request 1 10)) =
     Inr [\<lparr>e_id = 1, e_status = ''active'', e_start_date = 0, e_end_date = 2000\<rparr>]"
    using select_election_demo_1 by (simp add: demo_request_def)
  have c: "select_candidate demo_env demo_db (candidate_id (demo_request 1 10)) =
       Inr [\<lparr>c_id = 10, c_election_id = 1, c_name = ''A'', c_party = ''P'', c_photo_url = [],
             c_is_active = True\<rparr>]"
    using select_candidate_demo_10 by (simp add: demo_request_def)
  have n: "(0::int) \<le> new_Date demo_env" "new_Date demo_env \<le> 2000"
    "transaction_insert_error demo_env = None" "vote_insert_error demo_env = None"
    by (simp_all add: demo_env_def)
  have q: "\<not> js_loose_neq demo_env 1 (election_id (demo_request 1 10))"
    by (simp add: demo_request_def)
  from valid_vote_is_recorded [of "demo_request 1 10" demo_env demo_db, OF _ _ _ _ _ _ _ e _ _ _ c]
       n q
  have "\<exists>tx v rc. submitVote demo_env demo_db (demo_request 1 10) =
             (VoteSubmitted (t_transaction_hash tx) rc,
              demo_db\<lparr>blockchain_transactions := blockchain_transactions demo_db @ [tx],
                 votes := votes demo_db @ [v]\<rparr>)"
    by (simp add: demo_request_def) blast
  then obtain tx v rc where "submitVote demo_env demo_db (demo_request 1 10) =
             (VoteSubmitted (t_transaction_hash tx) rc,
              demo_db\<lparr>blockchain_transactions := blockchain_transactions demo_db @ [tx],
                 votes := votes demo_db @ [v]\<rparr>)"
    by blast
  then have "http_status (fst (submitVote demo_env demo_db (demo_request 1 10))) = Some 200"
    "length (blockchain_transactions (snd (submitVote demo_env demo_db (demo_request 1 10)))) = 3"
    "length (votes (snd (submitVote demo_env demo_db (demo_request 1 10)))) = 3"
    by (simp_all add: demo_db_def)
  with e c n q show ?thesis
    by simp
qed

subsection \<open>The results\<close>

lemma foldl_add_vote_count:
  "foldl (\<lambda>sum candidate. sum + vote_count candidate) a rows = a + sum_list (map vote_count rows)"
  by (induction rows arbitrary: a) simp_all

lemma sum_list_insort_key:
  "sum_list (map f (insort_key k x xs)) = (f::'a \<Rightarrow> nat) x + sum_list (map f xs)"
  by (induction xs) auto

lemma sum_list_sort_key: "sum_list (map f (sort_key k xs)) = sum_list (map (f::'a \<Rightarrow> nat) xs)"
  by (induction xs) (simp_all add: sum_list_insort_key)

lemma length_filter_disj:
  assumes "\<And>x. x \<in> set xs \<Longrightarrow> \<not> (A x \<and> B x)"
  shows "length (filter (\<lambda>x. A x \<or> B x) xs) = length (filter A xs) + length (filter B xs)"
  using assms by (induction xs) auto

lemma sum_counts_distinct:
  assumes "distinct (map c_id cs)"
  shows "sum_list (map (\<lambda>c. length [v \<leftarrow> vs. c_id c = v_candidate_id v \<and> verified v]) (filter P cs))
         = length [v \<leftarrow> vs. verified v \<and> list_ex (\<lambda>c. P c \<and> c_id c = v_candidate_id v) cs]"
  using assms
proof (induction cs)
  case Nil
  then show ?case by simp
next
  case (Cons c cs)
  then have ih: "sum_list (map (\<lambda>c. length [v \<leftarrow> vs. c_id c = v_candidate_id v \<and> verified v]) (filter P cs))
         = length [v \<leftarrow> vs. verified v \<and> list_ex (\<lambda>c. P c \<and> c_id c = v_candidate_id v) cs]"
    by simp
  have fresh: "c_id c \<notin> c_id ` set cs"
    using Cons.prems by simp
  show ?case
  proof (cases "P c")
    case False
    then show ?thesis using ih by simp
  next
    case True
    let ?A = "\<lambda>v. c_id c = v_candidate_id v \<and> verified v"
    let ?B = "\<lambda>v. verified v \<and> list_ex (\<lambda>c. P c \<and> c_id c = v_candidate_id v) cs"
    have disjoint: "\<not> (?A v \<and> ?B v)" for v
      using fresh by (auto simp add: list_ex_iff image_iff)
    have "[v \<leftarrow> vs. verified v \<and> list_ex (\<lambda>c. P c \<and> c_id c = v_candidate_id v) (c # cs)]
          = [v \<leftarrow> vs. ?A v \<or> ?B v]"
      using True by (intro filter_cong) auto
    also have "length \<dots> = length (filter ?A vs) + length (filter ?B vs)"
      by (rule length_filter_disj) (rule disjoint)
    finally show ?thesis
      using True ih by simp
  qed
qed

lemma sql_percentage_examples:
  "sql_percentage 3 4 = Some 75" "sql_percentage 1 4 = Some 25" "sql_percentage 0 4 = Some 0"
  "sql_percentage 1 3 = Some (3333 / 100)" "sql_percentage 2 3 = Some (6667 / 100)"
  "sql_percentage 1 8 = Some (25 / 2)" "sql_percentage 5 0 = None"
  "sql_percentage 1 2 = Some 50" "sql_percentage 1 1 = Some 100"
  by code_simp+

lemma getResults_demo_1:
  "getResults demo_env demo_db ''1'' =
     Results 1 [\<lparr>r_id = 10, r_name = ''A'', r_party = ''P'', r_photo_url = [],
                 vote_count = 1, percentage = Some 50\<rparr>]"
  by code_simp

lemma total_votes_subquery_demo_1: "total_votes_subquery demo_env demo_db (JStr ''1'') = 2"
  by (simp add: total_votes_subquery_def sql_eq_int_def verified_def demo_defs)

text \<open>
  C4, as stated, fails: the total returned is the sum of the counts of the rows, but it
  is not the number of verified vote records of the election. Election 1 has two
  verified vote records, one for candidate 10 and one for candidate 11; candidate 11 was
  deactivated, the query returns no row for it, and the total returned is 1.
\<close>

theorem results_total_misses_deactivated_candidates:
  "res_total_votes (getResults demo_env demo_db ''1'') = 1
   \<and> length (spec_verified_vote_records demo_env demo_db (JStr ''1'')) = 2
   \<and> total_votes_subquery demo_env demo_db (JStr ''1'') = 2"
proof -
  have "length (spec_verified_vote_records demo_env demo_db (JStr ''1'')) = 2"
    by (simp add: spec_verified_vote_records_def sql_eq_int_def verified_def demo_defs)
  then show ?thesis
    by (simp add: getResults_demo_1 total_votes_subquery_demo_1)
qed

text \<open>
  C4, amended. When the results query succeeds (candidate identifiers being unique, as
  the key of the table makes them), the total returned by getResults is the sum of the
  vote counts of the returned rows, and this sum is the number of verified vote records
  cast for the active candidates of the election; verified votes held by deactivated
  candidates are not counted.
\<close>

theorem results_total_is_sum_of_counts:
  assumes "distinct (map c_id (candidates db))"
      and "results_query_error env = None"
  shows "\<exists>rows. getResults env db ident = Results (sum_list (map vote_count rows)) rows
           \<and> sum_list (map vote_count rows) =
               length (verified_votes_for_active_candidates env db (JStr ident))"
proof -
  define rows where
    "rows = (case results_query env db (JStr ident) of Inr rs \<Rightarrow> rs | Inl err \<Rightarrow> [])"
  have q: "results_query env db (JStr ident) = Inr rows"
    using assms(2) by (simp add: rows_def results_query_def)
  have total: "getResults env db ident = Results (sum_list (map vote_count rows)) rows"
    using q by (simp add: getResults_def foldl_add_vote_count)
  have "sum_list (map vote_count rows) =
          sum_list (map (\<lambda>c. count_votes db c)
             (filter (active_candidate_of env (JStr ident)) (candidates db)))"
    using assms(2)
    by (simp add: rows_def results_query_def sum_list_sort_key comp_def active_candidate_of_def)
  also have "\<dots> = length (verified_votes_for_active_candidates env db (JStr ident))"
    unfolding count_votes_def verified_votes_for_active_candidates_def
    using assms(1) by (rule sum_counts_distinct)
  finally show ?thesis
    using total by blast
qed

theorem results_total_is_sum_of_counts_witness:
  "distinct (map c_id (candidates demo_db))
   \<and> res_total_votes (getResults demo_env demo_db ''1'') = 1
   \<and> length (verified_votes_for_active_candidates demo_env demo_db (JStr ''1'')) = 1"
proof -
  have d: "distinct (map c_id (candidates demo_db))" and e: "results_query_error demo_env = None"
    by (simp_all add: demo_defs)
  from results_total_is_sum_of_counts [OF d e, of "''1''"] getResults_demo_1
  have "length (verified_votes_for_active_candidates demo_env demo_db (JStr ''1'')) = 1"
    by auto
  with d getResults_demo_1 show ?thesis
    by simp
qed

text \<open>
  C5, the code at the failing input. Election 1, candidate 10 active with one verified
  vote, candidate 11 deactivated with one verified vote: getResults returns the total 1
  and, for candidate 10, the count 1 with the percentage 50.00, where the claim's
  round(1 * 100 / 1, 2) is 100.00. The divisor is the derived table \<open>total\<close>, which
  counts the verified votes of every candidate of the election, active or not (here 2).
\<close>

theorem percentage_uses_other_total:
  "getResults demo_env demo_db ''1'' =
     Results 1 [\<lparr>r_id = 10, r_name = ''A'', r_party = ''P'', r_photo_url = [],
                 vote_count = 1, percentage = Some 50\<rparr>]
   \<and> sql_percentage 1 1 = Some 100
   \<and> total_votes_subquery demo_env demo_db (JStr ''1'') = 2"
  using sql_percentage_examples(9)
  by (simp add: getResults_demo_1 total_votes_subquery_demo_1)

lemma set_results_query:
  assumes "results_query env db p = Inr rows" and "r \<in> set rows"
  shows "percentage r = sql_percentage (vote_count r) (total_votes_subquery env db p)"
  using assms
  by (auto simp add: results_query_def split: option.splits)

text \<open>
  X1. Every row that getResults returns carries the percentage of its own count in the
  derived table \<open>total\<close> (the verified votes of all candidates of the election), and
  the percentage is NULL exactly when that total is zero.
\<close>

theorem percentage_relative_to_subquery_total:
  assumes "getResults env db ident = Results n rows" and "r \<in> set rows"
  shows "percentage r = sql_percentage (vote_count r) (total_votes_subquery env db (JStr ident))
         \<and> (percentage r = None) = (total_votes_subquery env db (JStr ident) = 0)"
proof -
  have "results_query env db (JStr ident) = Inr rows"
    using assms(1) by (simp add: getResults_def split: sum.splits)
  then have "percentage r = sql_percentage (vote_count r) (total_votes_subquery env db (JStr ident))"
    using assms(2) by (rule set_results_query)
  then show ?thesis
    by (simp add: sql_percentage_def)
qed

theorem percentage_relative_to_subquery_total_witness:
  "getResults demo_env demo_db ''1'' =
     Results 1 [\<lparr>r_id = 10, r_name = ''A'', r_party = ''P'', r_photo_url = [],
                 vote_count = 1, percentage = Some 50\<rparr>]
   \<and> sql_percentage 1 (total_votes_subquery demo_env demo_db (JStr ''1'')) = Some 50"
  using percentage_relative_to_subquery_total
          [OF getResults_demo_1,
           of "\<lparr>r_id = 10, r_name = ''A'', r_party = ''P'', r_photo_url = [],
                 vote_count = 1, percentage = Some 50\<rparr>"]
        getResults_demo_1
  by simp

subsection \<open>Deleting an election\<close>

text \<open>
  C9. An election that a transaction of the ledger references is still present after the
  delete-election operation, whatever identifier was asked for; when the request names
  this election, the storage refuses the statement and the handler answers 500 with the
  database unchanged.
\<close>

theorem referenced_election_survives_delete:
  assumes "e \<in> set (elections db)"
      and "\<exists>t \<in> set (blockchain_transactions db). t_election_id t = e_id e"
  shows "e \<in> set (elections (snd (deleteElection env db ident)))
         \<and> (sql_eq_int env (e_id e) (JStr ident) \<longrightarrow>
              deleteElection env db ident = (DeleteDatabaseError, db))"
proof -
  have ref: "referenced_by_transaction db e"
    using assms(2) by (simp add: referenced_by_transaction_def list_ex_iff)
  show ?thesis
  proof (cases "sql_eq_int env (e_id e) (JStr ident)")
    case True
    then have "list_ex (referenced_by_transaction db)
                 (filter (\<lambda>e. sql_eq_int env (e_id e) (JStr ident)) (elections db))"
      using assms(1) ref by (auto simp add: list_ex_iff)
    then have "deleteElection env db ident = (DeleteDatabaseError, db)"
      by (simp add: deleteElection_def delete_election_query_def Let_def split: option.split)
    then show ?thesis
      using assms(1) by simp
  next
    case False
    then show ?thesis
      using assms(1)
      by (simp add: deleteElection_def delete_election_query_def Let_def
               split: option.split)
  qed
qed

theorem referenced_election_survives_delete_witness:
  "\<lparr>e_id = 1, e_status = ''active'', e_start_date = 0, e_end_date = 2000\<rparr> \<in> set (elections demo_db)
   \<and> list_ex (\<lambda>t. t_election_id t = 1) (blockchain_transactions demo_db)
   \<and> deleteElection demo_env demo_db ''1'' = (DeleteDatabaseError, demo_db)"
proof -
  have a: "\<lparr>e_id = 1, e_status = ''active'', e_start_date = 0, e_end_date = 2000\<rparr>
             \<in> set (elections demo_db)"
    by (simp add: demo_db_def)
  have b: "\<exists>t \<in> set (blockchain_transactions demo_db).
             t_election_id t = e_id \<lparr>e_id = 1, e_status = ''active'', e_start_date = 0, e_end_date = 2000\<rparr>"
    by (simp add: demo_db_def)
  have c: "sql_eq_int demo_env 1 (JStr ''1'')"
    by (simp add: sql_eq_int_def demo_env_def small_number_def)
  from referenced_election_survives_delete [OF a b, of demo_env "''1''"] c
  have "deleteElection demo_env demo_db ''1'' = (DeleteDatabaseError, demo_db)"
    by simp
  with a b show ?thesis
    by (simp add: list_ex_iff)
qed

subsection \<open>The tables are only appended to\<close>

lemma appended_refl: "appended db db"
  by (simp add: appended_def)

lemma appended_audit: "appended db (insert_audit_log outcome db entry)"
  by (simp add: appended_def insert_audit_log_def split: audit_outcome.split)

lemma reject_vote_appended: "appended db (snd (reject_vote env db req election r))"
  by (simp add: reject_vote_def Let_def appended_audit appended_refl split: audit_outcome.split)

lemma transaction_failed_appended: "appended db (snd (transaction_failed env db req h err))"
  by (simp add: transaction_failed_def Let_def appended_audit appended_refl
           split: audit_outcome.split)

lemma insert_transaction_Inr:
  assumes "insert_transaction env db h e a c d s = Inr (txid, db')"
  shows "\<exists>t. db' = db\<lparr>blockchain_transactions := blockchain_transactions db @ [t]\<rparr>
             \<and> t_id t = txid \<and> t_status t = ''confirmed''"
  using assms by (auto simp add: insert_transaction_def Let_def split: option.splits)

lemma record_vote_appended:
  "\<exists>vs. snd (record_vote env db req h txid) = db\<lparr>votes := votes db @ vs\<rparr>
        \<and> (vs = [] \<or> (\<exists>v. vs = [v] \<and> v_transaction_id v = txid \<and> verified v))"
proof (cases "voterHash env (voter_address req)")
  case None
  then have "snd (record_vote env db req h txid) = db\<lparr>votes := votes db @ []\<rparr>"
    by (simp add: record_vote_def)
  then show ?thesis by blast
next
  case (Some vh)
  show ?thesis
  proof (cases "insert_vote env db txid (election_id req) (candidate_id req) (''ANON_'' @ vh)")
    case (Inl err)
    then have "snd (record_vote env db req h txid) = db\<lparr>votes := votes db @ []\<rparr>"
      using Some by (simp add: record_vote_def)
    then show ?thesis by blast
  next
    case (Inr res)
    then obtain v where "snd res = db\<lparr>votes := votes db @ [v]\<rparr>"
                    and "v_transaction_id v = txid" and "verified v"
      by (auto simp add: insert_vote_def Let_def verified_def split: option.splits)
    then show ?thesis
      using Some Inr by (cases res) (auto simp add: record_vote_def)
  qed
qed

lemma create_transaction_appended: "appended db (snd (create_transaction env db req))"
proof (cases "insert_transaction env db (transactionHash (random_source env)) (election_id req)
                (voter_address req) (candidate_id req) (JSON_stringify env (vote_data req))
                (signature req)")
  case (Inl err)
  then show ?thesis
    by (simp add: create_transaction_def Let_def transaction_failed_appended)
next
  case (Inr res)
  obtain txid db' where res: "res = (txid, db')"
    by (cases res)
  from insert_transaction_Inr [OF Inr [unfolded res]]
  obtain t where t: "db' = db\<lparr>blockchain_transactions := blockchain_transactions db @ [t]\<rparr>"
      "t_id t = txid" "t_status t = ''confirmed''"
    by blast
  from record_vote_appended [of env db' req "transactionHash (random_source env)" txid]
  obtain vs where vs:
      "snd (record_vote env db' req (transactionHash (random_source env)) txid) =
         db'\<lparr>votes := votes db' @ vs\<rparr>"
      "vs = [] \<or> (\<exists>v. vs = [v] \<and> v_transaction_id v = txid \<and> verified v)"
    by blast
  have "snd (create_transaction env db req) = db'\<lparr>votes := votes db' @ vs\<rparr>"
    using Inr res vs(1) by (simp add: create_transaction_def Let_def)
  then show ?thesis
    using t vs(2) by (auto simp add: appended_def)
qed

lemma check_candidate_appended: "appended db (snd (check_candidate env db req))"
  by (simp add: check_candidate_def create_transaction_appended appended_refl
           split: sum.split list.split)

text \<open>
  X2. Whatever the submission and whatever the storage does, submitVote leaves elections
  and candidates as they were and only appends: to the ledger nothing or one transaction
  with status confirmed, to the vote records nothing or, together with a new
  transaction, one verified record that references it.
\<close>

theorem submitVote_appends_only:
  "\<exists>txs vs.
     blockchain_transactions (snd (submitVote env db req)) = blockchain_transactions db @ txs
     \<and> votes (snd (submitVote env db req)) = votes db @ vs
     \<and> elections (snd (submitVote env db req)) = elections db
     \<and> candidates (snd (submitVote env db req)) = candidates db
     \<and> (txs = [] \<and> vs = []
        \<or> (\<exists>t. txs = [t] \<and> t_status t = ''confirmed''
             \<and> (vs = [] \<or> (\<exists>v. vs = [v] \<and> v_transaction_id v = t_id t \<and> verified v))))"
proof -
  have "appended db (snd (submitVote env db req))"
    by (simp add: submitVote_def appended_refl reject_vote_appended check_candidate_appended
             split: sum.split list.split option.split)
  then show ?thesis
    by (auto simp add: appended_def Let_def split: list.splits)
qed

end
